theory Spec2Isabelle
  imports Complex_Main "HOL-Library.Word"
begin

unbundle bit_operations_syntax

section \<open>The perception pipeline of scripts/image_processing.py\<close>

text \<open>
  The script is Python 2 on top of NumPy and OpenCV. Python and NumPy floats are
  modelled as real numbers (no rounding error of the binary representation); the one
  non-finite value the code can produce, NaN, is kept as a value of its own. Integers
  (np.intp and Python ints) are \<open>int\<close>, the bytes of an image are \<open>8 word\<close>.
\<close>

subsection \<open>Data\<close>

type_synonym point = "int \<times> int"
type_synonym 'a box = "('a \<times> 'a) \<times> ('a \<times> 'a) \<times> ('a \<times> 'a) \<times> ('a \<times> 'a)"
type_synonym contour = "point list"
type_synonym pixel = "8 word \<times> 8 word \<times> 8 word"
type_synonym image = "pixel list list"
type_synonym mask = "8 word list list"

datatype error = ZeroDivisionError | CvError

datatype npfloat = Finite real | NaN

text \<open>One entry of the list \<open>detected\<close>: \<open>[[-center_x, center_y, 6.5], [0.0, 0.0, angle]]\<close>.\<close>

type_synonym detected = "(real \<times> real \<times> real) \<times> (real \<times> real \<times> npfloat)"

subsection \<open>Module constants\<close>

definition ACTUAL_WIDTH :: real where "ACTUAL_WIDTH = 43"
definition ACTUAL_HEIGHT :: real where "ACTUAL_HEIGHT = 20"

definition LOWER_BLUE :: "nat \<times> nat \<times> nat" where "LOWER_BLUE = (90, 80, 10)"
definition UPPER_BLUE :: "nat \<times> nat \<times> nat" where "UPPER_BLUE = (160, 255, 170)"
definition LOWER_GREEN :: "nat \<times> nat \<times> nat" where "LOWER_GREEN = (80, 100, 0)"
definition UPPER_GREEN :: "nat \<times> nat \<times> nat" where "UPPER_GREEN = (130, 255, 255)"
definition LOWER_YELLOW :: "nat \<times> nat \<times> nat" where "LOWER_YELLOW = (5, 60, 75)"
definition UPPER_YELLOW :: "nat \<times> nat \<times> nat" where "UPPER_YELLOW = (40, 130, 255)"
definition LOWER_RED_1 :: "nat \<times> nat \<times> nat" where "LOWER_RED_1 = (0, 70, 0)"
definition UPPER_RED_1 :: "nat \<times> nat \<times> nat" where "UPPER_RED_1 = (10, 255, 255)"
definition LOWER_RED_2 :: "nat \<times> nat \<times> nat" where "LOWER_RED_2 = (150, 70, 50)"
definition UPPER_RED_2 :: "nat \<times> nat \<times> nat" where "UPPER_RED_2 = (179, 255, 255)"

subsection \<open>Python and NumPy arithmetic\<close>

text \<open>Python's \<open>x % y\<close> on floats, for \<open>y > 0\<close>: the result has the sign of \<open>y\<close>.\<close>

definition py_mod :: "real \<Rightarrow> real \<Rightarrow> real" where
  "py_mod x y = x - y * of_int \<lfloor>x / y\<rfloor>"

text \<open>Python 2's \<open>round(x, n)\<close>: to \<open>n\<close> decimals, a tie goes away from zero.\<close>

definition py_round :: "real \<Rightarrow> nat \<Rightarrow> real" where
  "py_round x n =
     (if 0 \<le> x then of_int \<lfloor>x * 10 ^ n + 1 / 2\<rfloor> / 10 ^ n
      else - (of_int \<lfloor>- x * 10 ^ n + 1 / 2\<rfloor> / 10 ^ n))"

text \<open>\<open>round\<close> of a NumPy float: NaN stays NaN.\<close>

fun round_np :: "npfloat \<Rightarrow> nat \<Rightarrow> npfloat" where
  "round_np (Finite x) n = Finite (py_round x n)"
| "round_np NaN n = NaN"

text \<open>\<open>np.intp\<close> applied to a float: the cast truncates towards zero.\<close>

definition intp :: "real \<Rightarrow> int" where
  "intp x = (if 0 \<le> x then \<lfloor>x\<rfloor> else \<lceil>x\<rceil>)"

definition intp_box :: "real box \<Rightarrow> int box" where
  "intp_box b = (case b of ((x0, y0), (x1, y1), (x2, y2), (x3, y3)) \<Rightarrow>
     ((intp x0, intp y0), (intp x1, intp y1), (intp x2, intp y2), (intp x3, intp y3)))"

definition box_list :: "'a box \<Rightarrow> ('a \<times> 'a) list" where
  "box_list b = (case b of (p0, p1, p2, p3) \<Rightarrow> [p0, p1, p2, p3])"

text \<open>Subtraction of two points, as NumPy subtracts two rows of the array.\<close>

definition vsub :: "point \<Rightarrow> point \<Rightarrow> point" where
  "vsub p q = (fst p - fst q, snd p - snd q)"

text \<open>\<open>np.linalg.norm\<close> of an integer vector and of a float vector.\<close>

definition norm_i :: "point \<Rightarrow> real" where
  "norm_i v = sqrt (of_int (fst v * fst v + snd v * snd v))"

definition norm_r :: "real \<times> real \<Rightarrow> real" where
  "norm_r v = sqrt (fst v * fst v + snd v * snd v)"

subsection \<open>get_angle\<close>

text \<open>
  The quotient \<open>norm(reference) / norm(used_edge)\<close> is a division of NumPy floats: by
  zero it gives \<open>inf\<close> (with a warning, no exception), and \<open>inf\<close> times the zero component
  of the edge is NaN, which \<open>arccos\<close>, \<open>+\<close>, \<open>%\<close> and \<open>-\<close> pass on. The norm of the used
  edge is zero only when both its components are.
\<close>

definition get_angle :: "int box \<Rightarrow> npfloat" where
  "get_angle rect_points = (case rect_points of (p0, p1, p2, p3) \<Rightarrow>
     (let edge1 = vsub p1 p0;
          edge2 = vsub p2 p1;
          used_edge = (if norm_i edge2 > norm_i edge1 then edge2 else edge1);
          reference = (1 :: real, 0 :: real)
      in if norm_i used_edge = 0 then NaN
         else
           (let my_angle = arccos (norm_r reference / norm_i used_edge / fst reference
                                     * of_int (fst used_edge)
                                   + snd reference * of_int (snd used_edge)) + pi
            in Finite (py_mod my_angle (2 * pi) - pi))))"



subsection \<open>The OpenCV calls\<close>

text \<open>
  OpenCV is not part of the repository. The calls whose result is an algorithm of the
  library (colour conversion, blurring, morphology, edge and contour extraction, the
  rotated rectangle, drawing) are parameters of the model, one field per call, with the
  constant arguments of the call sites fixed. A drawing call writes into the buffer it
  is given; its field returns the contents of that buffer after the call.
\<close>

record cv2 =
  cvtColor_HSV2BGR_FULL :: "image \<Rightarrow> image"
  cvtColor_BGR2HSV :: "image \<Rightarrow> image"
  medianBlur :: "image \<Rightarrow> nat \<Rightarrow> image"
  dilate :: "mask \<Rightarrow> nat \<Rightarrow> mask"
  erode :: "mask \<Rightarrow> nat \<Rightarrow> mask"
  Canny :: "image \<Rightarrow> nat \<Rightarrow> nat \<Rightarrow> mask"
  findContours :: "mask \<Rightarrow> contour list"
  boxPoints_minAreaRect :: "contour \<Rightarrow> real box"
  drawContours :: "image \<Rightarrow> int box \<Rightarrow> image"
  rectangle :: "image \<Rightarrow> point \<Rightarrow> point \<Rightarrow> image"

text \<open>
  The calls with a closed arithmetic meaning are written out after the library's
  documentation. \<open>cv2.contourArea\<close> and \<open>cv2.moments\<close> of a point array use Green's
  formula over the closed polygon: one term per edge, from the previous point (the last
  one, for the first edge) to the current one. The moments are given the sign that makes
  \<open>m00\<close> positive, and are all zero when the signed area is zero. Only the three
  moments that the script reads are kept.
\<close>

fun contour_sums :: "contour \<Rightarrow> point \<Rightarrow> int \<times> int \<times> int \<Rightarrow> int \<times> int \<times> int" where
  "contour_sums [] prev acc = acc"
| "contour_sums ((xi, yi) # ps) (xi_1, yi_1) (a00, a10, a01) =
     (let dxy = xi_1 * yi - xi * yi_1
      in contour_sums ps (xi, yi)
           (a00 + dxy, a10 + dxy * (xi_1 + xi), a01 + dxy * (yi_1 + yi)))"

definition contourArea :: "contour \<Rightarrow> real" where
  "contourArea c =
     (if c = [] then 0
      else (case contour_sums c (last c) (0, 0, 0) of (a00, a10, a01) \<Rightarrow> \<bar>of_int a00\<bar> / 2))"

record moments =
  m00 :: real
  m10 :: real
  m01 :: real

definition cv2_moments :: "contour \<Rightarrow> moments" where
  "cv2_moments c =
     (if c = [] then \<lparr>m00 = 0, m10 = 0, m01 = 0\<rparr>
      else (case contour_sums c (last c) (0, 0, 0) of (a00, a10, a01) \<Rightarrow>
        if a00 > 0 then \<lparr>m00 = of_int a00 / 2, m10 = of_int a10 / 6, m01 = of_int a01 / 6\<rparr>
        else if a00 < 0
          then \<lparr>m00 = - of_int a00 / 2, m10 = - of_int a10 / 6, m01 = - of_int a01 / 6\<rparr>
        else \<lparr>m00 = 0, m10 = 0, m01 = 0\<rparr>))"

subsection \<open>detect\<close>

text \<open>
  The body of the loop for one rectangle that passed the area test, without the
  drawing: the moments of the integer corner points, the centroid, the conversion to
  centimetres and the angle. \<open>moments['m10']/moments['m00']\<close> divides two Python floats,
  which raises ZeroDivisionError when \<open>m00\<close> is zero; nothing catches it.
\<close>

definition estimate_pose :: "int box \<Rightarrow> real \<times> real \<Rightarrow> real \<times> real \<Rightarrow> error + detected" where
  "estimate_pose box_points dimensions scale =
     (let moments = cv2_moments (box_list box_points)
      in if m00 moments = 0 then Inl ZeroDivisionError
         else
           (let center_x = m10 moments / m00 moments - fst dimensions / 2;
                center_x = py_round (center_x * fst scale) 2;
                center_y = m01 moments / m00 moments - snd dimensions / 2;
                center_y = py_round (center_y * snd scale) 2;
                angle = round_np (get_angle box_points) 2
            in Inr ((- center_x, center_y, 13 / 2), (0, 0, angle))))"

text \<open>
  The loop over the contours. \<open>display\<close> is drawn on in place, so the function returns
  the contents of that buffer together with the result, also when the loop is left by
  the exception.
\<close>

fun detect_loop ::
  "cv2 \<Rightarrow> contour list \<Rightarrow> real \<times> real \<Rightarrow> real \<times> real \<Rightarrow> detected list \<Rightarrow> image
     \<Rightarrow> (error + detected list) \<times> image" where
  "detect_loop cv [] dimensions scale detected display = (Inr detected, display)"
| "detect_loop cv (i # contours) dimensions scale detected display =
     (if contourArea i > 800 then
        (let box_points = intp_box (boxPoints_minAreaRect cv i)
         in case estimate_pose box_points dimensions scale of
              Inl e \<Rightarrow> (Inl e, display)
            | Inr obj \<Rightarrow>
                detect_loop cv contours dimensions scale (detected @ [obj])
                  (drawContours cv display box_points))
      else detect_loop cv contours dimensions scale detected display)"

definition detect ::
  "cv2 \<Rightarrow> image \<Rightarrow> real \<times> real \<Rightarrow> real \<times> real \<Rightarrow> image \<Rightarrow> (error + detected list) \<times> image" where
  "detect cv img dimensions scale display =
     (let img = cvtColor_HSV2BGR_FULL cv img;
          canny = Canny cv img 10 80;
          contours = findContours cv canny
      in detect_loop cv contours dimensions scale [] display)"

subsection \<open>Array operations of process_image\<close>

text \<open>
  \<open>cv2.inRange\<close> sets a mask byte to 255 where every channel of the pixel lies between
  the two bounds, both included, and to 0 elsewhere.
\<close>

definition in_bounds :: "nat \<times> nat \<times> nat \<Rightarrow> nat \<times> nat \<times> nat \<Rightarrow> pixel \<Rightarrow> bool" where
  "in_bounds lowerb upperb p =
     (case (lowerb, upperb, p) of ((l0, l1, l2), (u0, u1, u2), (c0, c1, c2)) \<Rightarrow>
        l0 \<le> unat c0 \<and> unat c0 \<le> u0 \<and> l1 \<le> unat c1 \<and> unat c1 \<le> u1
        \<and> l2 \<le> unat c2 \<and> unat c2 \<le> u2)"

definition inRange :: "image \<Rightarrow> nat \<times> nat \<times> nat \<Rightarrow> nat \<times> nat \<times> nat \<Rightarrow> mask" where
  "inRange src lowerb upperb = map (map (\<lambda>p. if in_bounds lowerb upperb p then 255 else 0)) src"

text \<open>\<open>cv2.bitwise_or\<close> of two masks of one size.\<close>

definition bitwise_or :: "mask \<Rightarrow> mask \<Rightarrow> mask" where
  "bitwise_or src1 src2 = map2 (map2 (\<lambda>a b. a OR b)) src1 src2"

text \<open>
  \<open>cv2.bitwise_and(image, image, mask=m)\<close>: the pixel (and-ed with itself) where the
  mask is not zero, black elsewhere; the library raises an error when the mask has
  another size than the image.
\<close>

definition bitwise_and_mask :: "image \<Rightarrow> mask \<Rightarrow> error + image" where
  "bitwise_and_mask src m =
     (if map length m \<noteq> map length src then Inl CvError
      else Inr (map2 (map2 (\<lambda>p v. if v \<noteq> 0
                   then (case p of (c0, c1, c2) \<Rightarrow> (c0 AND c0, c1 AND c1, c2 AND c2))
                   else (0, 0, 0))) src m))"

text \<open>\<open>+\<close> of two uint8 arrays of one shape: byte by byte, wrapping around.\<close>

definition np_add :: "image \<Rightarrow> image \<Rightarrow> image" where
  "np_add a b = map2 (map2 (\<lambda>p q. case (p, q) of ((p0, p1, p2), (q0, q1, q2)) \<Rightarrow>
     (p0 + q0, p1 + q1, p2 + q2))) a b"

text \<open>
  \<open>raw[vertical[0]:vertical[1], horizontal[0]:horizontal[1]]\<close> is a view: it shares
  the memory of \<open>raw\<close>. \<open>slice\<close> reads the contents of the view, \<open>store_view\<close> gives the
  contents of the whole buffer once the view holds \<open>view\<close>.
\<close>

definition slice :: "image \<Rightarrow> nat \<times> nat \<Rightarrow> nat \<times> nat \<Rightarrow> image" where
  "slice raw vertical horizontal =
     map (\<lambda>row. take (snd horizontal - fst horizontal) (drop (fst horizontal) row))
       (take (snd vertical - fst vertical) (drop (fst vertical) raw))"

definition store_view :: "image \<Rightarrow> nat \<times> nat \<Rightarrow> nat \<times> nat \<Rightarrow> image \<Rightarrow> image" where
  "store_view raw vertical horizontal view =
     take (fst vertical) raw
     @ map2 (\<lambda>old new. take (fst horizontal) old @ new @ drop (snd horizontal) old)
         (take (snd vertical - fst vertical) (drop (fst vertical) raw)) view
     @ drop (snd vertical) raw"

subsection \<open>process_image\<close>

text \<open>
  The function is modelled in the order of its statements, one definition per block.
  The windows (\<open>namedWindow\<close>, \<open>imshow\<close>, \<open>waitKey\<close>) and the two rotated copies made
  only to be shown are left out: they return nothing that the function uses.

  \<open>raw.shape[:2]\<close>: the rows of the frame and the length of a row. (A frame without
  rows has no row to measure; both divisions then raise as for a frame of width 0.)
\<close>

definition shape :: "image \<Rightarrow> nat \<times> nat" where
  "shape raw = (length raw, (case raw of [] \<Rightarrow> 0 | row # _ \<Rightarrow> length row))"

text \<open>
  Lines 143 to 161: the corners of the region of interest, its pixel dimensions and
  the scale. \<open>int(height/3)\<close> truncates the float quotient of a non-negative height.
  The divisions are float divisions and raise ZeroDivisionError on zero.
\<close>

record roi =
  roi_upper_left :: "nat \<times> nat"
  roi_bottom_right :: "nat \<times> nat"
  roi_horizontal :: "nat \<times> nat"
  roi_vertical :: "nat \<times> nat"
  roi_dimensions :: "real \<times> real"
  roi_scale :: "real \<times> real"

definition roi_of :: "image \<Rightarrow> error + roi" where
  "roi_of raw =
     (let (height, width) = shape raw;
          upper_left = (0, height div 3);
          bottom_right = (width, height);
          horizontal = (fst upper_left, fst bottom_right);
          vertical = (snd upper_left, snd bottom_right);
          cropped_width = real (snd horizontal - fst horizontal);
          cropped_height = real (snd vertical - fst vertical)
      in if cropped_width = 0 then Inl ZeroDivisionError
         else if cropped_height = 0 then Inl ZeroDivisionError
         else
           (let dimensions = (cropped_width, cropped_height);
                width_scale = ACTUAL_WIDTH / cropped_width;
                height_scale = ACTUAL_HEIGHT / cropped_height;
                scale = (width_scale, height_scale)
            in Inr \<lparr>roi_upper_left = upper_left, roi_bottom_right = bottom_right,
                      roi_horizontal = horizontal, roi_vertical = vertical,
                      roi_dimensions = dimensions, roi_scale = scale\<rparr>))"

text \<open>Lines 178 to 183: four passes of the median blur, then the conversion to HSV.\<close>

definition denoise :: "cv2 \<Rightarrow> image \<Rightarrow> image" where
  "denoise cv img = ((\<lambda>i. medianBlur cv i 5) ^^ 4) img"

text \<open>Lines 189 to 191: the two red ranges, or-ed.\<close>

definition red_mask :: "image \<Rightarrow> mask" where
  "red_mask hsv =
     (let mask_r_1 = inRange hsv LOWER_RED_1 UPPER_RED_1;
          mask_r_2 = inRange hsv LOWER_RED_2 UPPER_RED_2
      in bitwise_or mask_r_1 mask_r_2)"

text \<open>The three statements that every colour shares: dilate twice, erode three times, mask the image.\<close>

definition masked :: "cv2 \<Rightarrow> image \<Rightarrow> mask \<Rightarrow> error + image" where
  "masked cv img m = bitwise_and_mask img (erode cv (dilate cv m 2) 3)"

text \<open>Lines 188 to 212: the masked images \<open>(res_r, res_b, res_g, res_y)\<close>.\<close>

definition threshold :: "cv2 \<Rightarrow> image \<Rightarrow> image \<Rightarrow> error + (image \<times> image \<times> image \<times> image)" where
  "threshold cv img hsv =
     (case masked cv img (red_mask hsv) of Inl e \<Rightarrow> Inl e | Inr res_r \<Rightarrow>
      case masked cv img (inRange hsv LOWER_BLUE UPPER_BLUE) of Inl e \<Rightarrow> Inl e | Inr res_b \<Rightarrow>
      case masked cv img (inRange hsv LOWER_GREEN UPPER_GREEN) of Inl e \<Rightarrow> Inl e | Inr res_g \<Rightarrow>
      case masked cv img (inRange hsv LOWER_YELLOW UPPER_YELLOW) of Inl e \<Rightarrow> Inl e | Inr res_y \<Rightarrow>
      Inr (res_r, res_b, res_g, res_y))"

text \<open>
  Lines 214 to 216: the three calls of \<open>detect\<close>, each drawing on the buffer the
  previous one returned. The result pairs the three lists with the contents of that
  buffer.
\<close>

definition detect_all ::
  "cv2 \<Rightarrow> image \<Rightarrow> image \<Rightarrow> image \<Rightarrow> real \<times> real \<Rightarrow> real \<times> real \<Rightarrow> image
     \<Rightarrow> (error + detected list list) \<times> image" where
  "detect_all cv res_g res_y res_r dimensions scale raw_cropped =
     (case detect cv res_g dimensions scale raw_cropped of
        (Inl e, display) \<Rightarrow> (Inl e, display)
      | (Inr cubes, display) \<Rightarrow>
     (case detect cv res_y dimensions scale display of
        (Inl e, display) \<Rightarrow> (Inl e, display)
      | (Inr cuboids, display) \<Rightarrow>
     (case detect cv res_r dimensions scale display of
        (Inl e, display) \<Rightarrow> (Inl e, display)
      | (Inr long_cuboids, display) \<Rightarrow> (Inr [cubes, cuboids, long_cuboids], display))))"

text \<open>
  The whole function. Its value is the pair that the Python returns, or the exception,
  together with the contents of the caller's buffer \<open>raw\<close> when the call ends:
  \<open>cv2.rectangle\<close> draws on \<open>raw\<close> itself, the cropped image is a view of \<open>raw\<close>
  taken before and read after that drawing, and \<open>raw_cropped\<close>, on which \<open>detect\<close>
  draws, is that same view.
\<close>

definition process_image ::
  "cv2 \<Rightarrow> image \<Rightarrow> (error + (detected list list \<times> image)) \<times> image" where
  "process_image cv raw =
     (case roi_of raw of Inl e \<Rightarrow> (Inl e, raw) | Inr r \<Rightarrow>
      (let raw = rectangle cv raw (int (fst (roi_upper_left r)), int (snd (roi_upper_left r)))
                   (int (fst (roi_bottom_right r)), int (snd (roi_bottom_right r)));
           img = slice raw (roi_vertical r) (roi_horizontal r);
           raw_cropped = img;
           img = denoise cv img;
           hsv = cvtColor_BGR2HSV cv img
       in case threshold cv img hsv of Inl e \<Rightarrow> (Inl e, raw)
          | Inr (res_r, res_b, res_g, res_y) \<Rightarrow>
            (case detect_all cv res_g res_y res_r (roi_dimensions r) (roi_scale r) raw_cropped of
               (Inl e, display) \<Rightarrow> (Inl e, store_view raw (roi_vertical r) (roi_horizontal r) display)
             | (Inr arrangement, display) \<Rightarrow>
                 (Inr (arrangement, np_add (np_add res_r res_b) res_y),
                  store_view raw (roi_vertical r) (roi_horizontal r) display))))"


subsection \<open>Notions used in the statements\<close>

text \<open>The integer corner points that the loop computes for a contour.\<close>

definition box_of :: "cv2 \<Rightarrow> contour \<Rightarrow> int box" where
  "box_of cv i = intp_box (boxPoints_minAreaRect cv i)"

text \<open>The pixel centroid of a rectangle: \<open>(m10/m00, m01/m00)\<close>.\<close>

definition centroid :: "int box \<Rightarrow> real \<times> real" where
  "centroid b =
     (m10 (cv2_moments (box_list b)) / m00 (cv2_moments (box_list b)),
      m01 (cv2_moments (box_list b)) / m00 (cv2_moments (box_list b)))"

text \<open>
  The object that the specification describes for a rectangle: the centroid re-centred
  on the middle of the region, scaled, rounded to two decimals, the x component negated,
  the fixed height 6.5, and the rounded angle as yaw.
\<close>

definition pose :: "int box \<Rightarrow> real \<times> real \<Rightarrow> real \<times> real \<Rightarrow> detected" where
  "pose b d s =
     ((- py_round ((fst (centroid b) - fst d / 2) * fst s) 2,
       py_round ((snd (centroid b) - snd d / 2) * snd s) 2,
       13 / 2),
      (0, 0, round_np (get_angle b) 2))"

text \<open>The contours that \<open>detect\<close> finds in an image, before the area test.\<close>

definition contours_of :: "cv2 \<Rightarrow> image \<Rightarrow> contour list" where
  "contours_of cv img = findContours cv (Canny cv (cvtColor_HSV2BGR_FULL cv img) 10 80)"

text \<open>
  The stages of \<open>process_image\<close> for a region \<open>r\<close>: the caller's buffer once
  \<open>cv2.rectangle\<close> has drawn on it, the contents of the cropped view of that buffer,
  and the denoised image.
\<close>

definition drawn :: "cv2 \<Rightarrow> image \<Rightarrow> roi \<Rightarrow> image" where
  "drawn cv raw r =
     rectangle cv raw (int (fst (roi_upper_left r)), int (snd (roi_upper_left r)))
       (int (fst (roi_bottom_right r)), int (snd (roi_bottom_right r)))"

definition roi_view :: "cv2 \<Rightarrow> image \<Rightarrow> roi \<Rightarrow> image" where
  "roi_view cv raw r = slice (drawn cv raw r) (roi_vertical r) (roi_horizontal r)"

definition roi_img :: "cv2 \<Rightarrow> image \<Rightarrow> roi \<Rightarrow> image" where
  "roi_img cv raw r = denoise cv (roi_view cv raw r)"

subsection \<open>A small executable stand-in for the library\<close>

text \<open>
  To run the model on a concrete frame the library calls need values. This instance is
  deliberately simple: conversions, blur and morphology leave their argument as it is,
  the edge map marks the pixels that are not black, the contours are a given list
  (reported whenever the edge map has a marked pixel), the rectangle of a contour is a
  given function, and the two drawing calls colour one pixel, the first corner.
\<close>

definition paint :: "image \<Rightarrow> point \<Rightarrow> pixel \<Rightarrow> image" where
  "paint img p c = (case p of (x, y) \<Rightarrow>
     if 0 \<le> x \<and> 0 \<le> y \<and> nat y < length img \<and> nat x < length (img ! nat y)
     then img[nat y := (img ! nat y)[nat x := c]] else img)"

definition corner_box :: "contour \<Rightarrow> real box" where
  "corner_box c = (case c of
       (x0, y0) # (x1, y1) # (x2, y2) # (x3, y3) # _ \<Rightarrow>
         ((of_int x0, of_int y0), (of_int x1, of_int y1),
          (of_int x2, of_int y2), (of_int x3, of_int y3))
     | _ \<Rightarrow> ((0, 0), (0, 0), (0, 0), (0, 0)))"

definition sample_cv :: "contour list \<Rightarrow> (contour \<Rightarrow> real box) \<Rightarrow> cv2" where
  "sample_cv cs bx =
     \<lparr>cvtColor_HSV2BGR_FULL = (\<lambda>i. i),
      cvtColor_BGR2HSV = (\<lambda>i. i),
      medianBlur = (\<lambda>i k. i),
      dilate = (\<lambda>m n. m),
      erode = (\<lambda>m n. m),
      Canny = (\<lambda>i lo hi. map (map (\<lambda>p. if p = (0, 0, 0) then 0 else 255)) i),
      findContours = (\<lambda>m. if list_ex (list_ex (\<lambda>v. v \<noteq> 0)) m then cs else []),
      boxPoints_minAreaRect = bx,
      drawContours = (\<lambda>i b. paint i (fst b) (255, 255, 0)),
      rectangle = (\<lambda>i ul br. paint i ul (0, 0, 0))\<rparr>"

section \<open>Properties\<close>

subsection \<open>Arithmetic of the angle\<close>














subsection \<open>The loop of detect\<close>

lemma estimate_pose_eq:
  "estimate_pose b d s =
     (if m00 (cv2_moments (box_list b)) = 0 then Inl ZeroDivisionError else Inr (pose b d s))"
  by (simp add: estimate_pose_def pose_def centroid_def Let_def)

lemma detect_loop_ok:
  assumes "\<forall>i \<in> set cs. contourArea i > 800 \<longrightarrow> m00 (cv2_moments (box_list (box_of cv i))) \<noteq> 0"
  shows "detect_loop cv cs d s acc disp =
           (Inr (acc @ map (\<lambda>i. pose (box_of cv i) d s) (filter (\<lambda>i. contourArea i > 800) cs)),
            foldl (drawContours cv) disp (map (box_of cv) (filter (\<lambda>i. contourArea i > 800) cs)))"
  using assms
proof (induction cs arbitrary: acc disp)
  case Nil
  then show ?case by simp
next
  case (Cons i cs)
  then show ?case
    by (simp add: estimate_pose_eq box_of_def Let_def)
qed

lemma detect_loop_fail:
  assumes "\<exists>i \<in> set cs. contourArea i > 800 \<and> m00 (cv2_moments (box_list (box_of cv i))) = 0"
  shows "fst (detect_loop cv cs d s acc disp) = Inl ZeroDivisionError"
  using assms
proof (induction cs arbitrary: acc disp)
  case Nil
  then show ?case by simp
next
  case (Cons i cs)
  show ?case
  proof (cases "contourArea i > 800 \<and> m00 (cv2_moments (box_list (box_of cv i))) = 0")
    case True
    then show ?thesis by (simp add: estimate_pose_eq box_of_def Let_def)
  next
    case False
    with Cons.prems have "\<exists>i \<in> set cs. contourArea i > 800 \<and> m00 (cv2_moments (box_list (box_of cv i))) = 0"
      by auto
    from Cons.IH [OF this] False show ?thesis
      by (auto simp add: estimate_pose_eq box_of_def Let_def)
  qed
qed

lemma detect_loop_display_indep:
  "fst (detect_loop cv cs d s acc disp1) = fst (detect_loop cv cs d s acc disp2)"
proof (induction cs arbitrary: acc disp1 disp2)
  case Nil
  then show ?case by simp
next
  case (Cons i cs)
  then show ?case
    by (simp add: estimate_pose_eq Let_def)
qed

subsection \<open>Orientation\<close>






subsection \<open>Rounding, and rectangles without area\<close>







subsection \<open>The result of detect\<close>

lemma detect_eq: "detect cv img d s disp = detect_loop cv (contours_of cv img) d s [] disp"
  by (simp add: detect_def contours_of_def Let_def)

lemma detect_ok:
  assumes "\<forall>i \<in> set (contours_of cv img).
             contourArea i > 800 \<longrightarrow> m00 (cv2_moments (box_list (box_of cv i))) \<noteq> 0"
  shows "detect cv img d s disp =
           (Inr (map (\<lambda>i. pose (box_of cv i) d s)
                   (filter (\<lambda>i. contourArea i > 800) (contours_of cv img))),
            foldl (drawContours cv) disp
              (map (box_of cv) (filter (\<lambda>i. contourArea i > 800) (contours_of cv img))))"
  using detect_loop_ok [OF assms, of d s "[]" disp] by (simp add: detect_eq)

lemma detect_fail:
  assumes "\<exists>i \<in> set (contours_of cv img).
             contourArea i > 800 \<and> m00 (cv2_moments (box_list (box_of cv i))) = 0"
  shows "fst (detect cv img d s disp) = Inl ZeroDivisionError"
  using detect_loop_fail [OF assms] by (simp add: detect_eq)

lemma detect_Inr:
  assumes "fst (detect cv img d s disp) = Inr objs"
  shows "objs = map (\<lambda>i. pose (box_of cv i) d s)
                  (filter (\<lambda>i. contourArea i > 800) (contours_of cv img))"
    and "\<forall>i \<in> set (contours_of cv img).
           contourArea i > 800 \<longrightarrow> m00 (cv2_moments (box_list (box_of cv i))) \<noteq> 0"
proof -
  show ok: "\<forall>i \<in> set (contours_of cv img).
           contourArea i > 800 \<longrightarrow> m00 (cv2_moments (box_list (box_of cv i))) \<noteq> 0"
  proof (rule ccontr)
    assume "\<not> ?thesis"
    then have "\<exists>i \<in> set (contours_of cv img).
             contourArea i > 800 \<and> m00 (cv2_moments (box_list (box_of cv i))) = 0" by blast
    from detect_fail [OF this, of d s disp] assms show False by simp
  qed
  from detect_ok [OF ok, of d s disp] assms
  show "objs = map (\<lambda>i. pose (box_of cv i) d s)
                  (filter (\<lambda>i. contourArea i > 800) (contours_of cv img))" by simp
qed

lemma norm_i_axis_x: "norm_i (a, 0) = \<bar>of_int a\<bar>"
  by (simp add: norm_i_def flip: power2_eq_square)

lemma norm_i_axis_y: "norm_i (0, a) = \<bar>of_int a\<bar>"
  by (simp add: norm_i_def flip: power2_eq_square)

lemma sample_contours:
  "contours_of (sample_cv cs bx) [[(255, 0, 0)]] = cs"
  by (simp add: contours_of_def sample_cv_def)


lemma moments_66_32:
  "cv2_moments [(0, 0), (66, 0), (66, 32), (0, 32)] = \<lparr>m00 = 2112, m10 = 69696, m01 = 33792\<rparr>"
  by (simp add: cv2_moments_def)

lemma angle_66_32: "get_angle ((0, 0), (66, 0), (66, 32), (0, 32)) = Finite 0"
  by (simp add: get_angle_def vsub_def norm_i_axis_x norm_i_axis_y norm_r_def py_mod_def)



subsection \<open>Rectangles whose moment m00 is zero\<close>




subsection \<open>Position\<close>




subsection \<open>The area test\<close>

lemma area_40_20: "contourArea [(0, 0), (40, 0), (40, 20), (0, 20)] = 800"
  by (simp add: contourArea_def)

lemma area_66_32: "contourArea [(0, 0), (66, 0), (66, 32), (0, 32)] = 2112"
  by (simp add: contourArea_def)

text \<open>
  C6 (as the code has it). A contour is kept when its area is greater than 800 and
  dropped otherwise, so a contour of area exactly 800 is dropped: whenever \<open>detect\<close>
  returns a list, the list holds one object for each contour of area greater than 800,
  in the order of the contours, each computed from the fitted rectangle of its contour.
  When no contour has an area greater than 800, the result is the empty list, without
  error, and nothing is drawn.
\<close>

theorem detect_area_filter:
  "(fst (detect cv img d s display) = Inr objs \<longrightarrow>
      objs = map (\<lambda>i. pose (box_of cv i) d s)
               (filter (\<lambda>i. contourArea i > 800) (contours_of cv img)))
   \<and> ((\<forall>i \<in> set (contours_of cv img). contourArea i \<le> 800) \<longrightarrow>
      detect cv img d s display = (Inr [], display))"
proof (intro conjI impI)
  assume "fst (detect cv img d s display) = Inr objs"
  from detect_Inr(1) [OF this]
  show "objs = map (\<lambda>i. pose (box_of cv i) d s)
               (filter (\<lambda>i. contourArea i > 800) (contours_of cv img))" .
next
  assume small: "\<forall>i \<in> set (contours_of cv img). contourArea i \<le> 800"
  then have none: "filter (\<lambda>i. contourArea i > 800) (contours_of cv img) = []"
    by (auto simp: filter_empty_conv)
  from small have "\<forall>i \<in> set (contours_of cv img).
      contourArea i > 800 \<longrightarrow> m00 (cv2_moments (box_list (box_of cv i))) \<noteq> 0" by auto
  from detect_ok [OF this, of d s display] none
  show "detect cv img d s display = (Inr [], display)" by simp
qed

text \<open>The theorem on an image whose only contour is a rectangle of 40 by 20 pixels.\<close>

theorem detect_area_filter_witness:
  "fst (detect (sample_cv [[(0, 0), (40, 0), (40, 20), (0, 20)]] corner_box) [[(255, 0, 0)]]
          (400, 200) (43 / 400, 1 / 10) [[(0, 0, 0)]]) = Inr []
   \<and> [] = map (\<lambda>i. pose (box_of (sample_cv [[(0, 0), (40, 0), (40, 20), (0, 20)]] corner_box) i)
                   (400, 200) (43 / 400, 1 / 10))
             (filter (\<lambda>i. contourArea i > 800) [[(0, 0), (40, 0), (40, 20), (0, 20)]])
   \<and> detect (sample_cv [[(0, 0), (40, 0), (40, 20), (0, 20)]] corner_box) [[(255, 0, 0)]]
          (400, 200) (43 / 400, 1 / 10) [[(0, 0, 0)]] = (Inr [], [[(0, 0, 0)]])"
proof -
  let ?cv = "sample_cv [[(0, 0), (40, 0), (40, 20), (0, 20)]] corner_box"
  have small: "\<forall>i \<in> set (contours_of ?cv [[(255, 0, 0)]]). contourArea i \<le> 800"
    unfolding sample_contours by (simp add: area_40_20)
  have d: "detect ?cv [[(255, 0, 0)]] (400, 200) (43 / 400, 1 / 10) [[(0, 0, 0)]]
             = (Inr [], [[(0, 0, 0)]])"
    using detect_area_filter [of ?cv "[[(255, 0, 0)]]" "(400, 200)" "(43 / 400, 1 / 10)"
        "[[(0, 0, 0)]]" "[]"] small by blast
  have f: "fst (detect ?cv [[(255, 0, 0)]] (400, 200) (43 / 400, 1 / 10) [[(0, 0, 0)]]) = Inr []"
    by (simp add: d)
  have m: "[] = map (\<lambda>i. pose (box_of ?cv i) (400, 200) (43 / 400, 1 / 10))
             (filter (\<lambda>i. contourArea i > 800) [[(0, 0), (40, 0), (40, 20), (0, 20)]])"
    using detect_area_filter [of ?cv "[[(255, 0, 0)]]" "(400, 200)" "(43 / 400, 1 / 10)"
        "[[(0, 0, 0)]]" "[]"] f unfolding sample_contours by blast
  from f m d show ?thesis by blast
qed

text \<open>
  C6 as stated fails: the contour \<open>(0,0), (40,0), (40,20), (0,20)\<close> has area 800,
  which is not below 800, and it is dropped.
\<close>

theorem detect_area_800_counterexample:
  "contourArea [(0, 0), (40, 0), (40, 20), (0, 20)] = 800
   \<and> \<not> contourArea [(0, 0), (40, 0), (40, 20), (0, 20)] < 800
   \<and> detect (sample_cv [[(0, 0), (40, 0), (40, 20), (0, 20)]] corner_box) [[(255, 0, 0)]]
          (400, 200) (43 / 400, 1 / 10) [[(0, 0, 0)]] = (Inr [], [[(0, 0, 0)]])"
  by (simp add: area_40_20 detect_def sample_cv_def)

subsection \<open>Rounded values\<close>



subsection \<open>The red mask\<close>

lemma inRange_nth:
  assumes "y < length src" "x < length (src ! y)"
  shows "inRange src lo hi ! y ! x = (if in_bounds lo hi (src ! y ! x) then 255 else 0)"
  using assms by (simp add: inRange_def)

lemma inRange_shape:
  "length (inRange src lo hi) = length src"
  "y < length src \<Longrightarrow> length (inRange src lo hi ! y) = length (src ! y)"
  by (simp_all add: inRange_def)

lemma red_mask_nth:
  assumes "y < length hsv" "x < length (hsv ! y)"
  shows "red_mask hsv ! y ! x =
           (if in_bounds LOWER_RED_1 UPPER_RED_1 (hsv ! y ! x) then 255 else 0)
           OR (if in_bounds LOWER_RED_2 UPPER_RED_2 (hsv ! y ! x) then 255 else 0)"
  using assms by (simp add: red_mask_def bitwise_or_def Let_def inRange_shape inRange_nth)

text \<open>
  C7. For every pixel \<open>(h, s, v)\<close> of the HSV image, the red mask of lines 189 to 191
  is 255 at that pixel exactly when the pixel lies in the first pair of bounds or in
  the second, every channel tested with both bounds included, and is 0 otherwise; in
  particular it is 0 for a hue above 10 and below 150.
\<close>

theorem red_mask_union:
  assumes "y < length hsv" and "x < length (hsv ! y)" and "hsv ! y ! x = (h, s, v)"
  shows "(red_mask hsv ! y ! x = 255 \<longleftrightarrow>
            (0 \<le> unat h \<and> unat h \<le> 10 \<and> 70 \<le> unat s \<and> unat s \<le> 255
               \<and> 0 \<le> unat v \<and> unat v \<le> 255)
            \<or> (150 \<le> unat h \<and> unat h \<le> 179 \<and> 70 \<le> unat s \<and> unat s \<le> 255
               \<and> 50 \<le> unat v \<and> unat v \<le> 255))
       \<and> (red_mask hsv ! y ! x \<noteq> 255 \<longleftrightarrow> red_mask hsv ! y ! x = 0)
       \<and> (10 < unat h \<and> unat h < 150 \<longrightarrow> red_mask hsv ! y ! x = 0)"
  using assms
  by (auto simp: red_mask_nth in_bounds_def LOWER_RED_1_def UPPER_RED_1_def LOWER_RED_2_def
        UPPER_RED_2_def)

text \<open>
  The theorem on the middle pixel of a row with hues 5, 75 and 170: the hue 75 lies
  between the two ranges and is excluded, the other two are members.
\<close>

theorem red_mask_union_witness:
  "red_mask [[(5, 200, 200), (75, 200, 200), (170, 200, 200)]] = [[255, 0, 255]]
   \<and> red_mask [[(5, 200, 200), (75, 200, 200), (170, 200, 200)]] ! 0 ! 1 = 0"
proof -
  let ?hsv = "[[(5, 200, 200), (75, 200, 200), (170, 200, 200)]] :: image"
  have "red_mask ?hsv ! 0 ! 1 = 0"
    using red_mask_union [of 0 ?hsv 1 75 200 200] by simp
  moreover have "red_mask ?hsv = [[255, 0, 255]]"
    by (simp add: red_mask_def bitwise_or_def inRange_def in_bounds_def LOWER_RED_1_def
          UPPER_RED_1_def LOWER_RED_2_def UPPER_RED_2_def)
  ultimately show ?thesis by simp
qed

subsection \<open>The region of interest\<close>

lemma shape_rect:
  assumes "length raw = h" "\<forall>row \<in> set raw. length row = w" "0 < h"
  shows "shape raw = (h, w)"
  using assms by (cases raw) (auto simp: shape_def)

lemma slice_rect:
  assumes "length b = h" "\<forall>row \<in> set b. length row = w"
  shows "slice b (h div 3, h) (0, w) = drop (h div 3) b"
proof -
  have "map (\<lambda>row. take w row) (drop (h div 3) b) = drop (h div 3) b"
    using assms(2) by (intro map_idI) (auto dest: in_set_dropD)
  then show ?thesis using assms(1) by (simp add: slice_def)
qed

text \<open>
  C8. For every rectangular frame of \<open>h > 0\<close> rows and \<open>w > 0\<close> columns, the region
  computed by lines 143 to 161 has the corners \<open>(0, h div 3)\<close> and \<open>(w, h)\<close>; the crop keeps
  the rows from \<open>h div 3\<close> to the last one with all their columns; the pixel dimensions
  are \<open>w\<close> and \<open>h - h div 3\<close>, and the scale is the real width 43 divided by the first
  and the real height 20 divided by the second, both strictly positive.
\<close>

theorem roi_crop_and_scale:
  assumes "length raw = h" and "\<forall>row \<in> set raw. length row = w" and "0 < h" and "0 < w"
  shows "\<exists>r. roi_of raw = Inr r
           \<and> roi_upper_left r = (0, h div 3) \<and> roi_bottom_right r = (w, h)
           \<and> roi_vertical r = (h div 3, h) \<and> roi_horizontal r = (0, w)
           \<and> slice raw (roi_vertical r) (roi_horizontal r) = drop (h div 3) raw
           \<and> roi_dimensions r = (real w, real (h - h div 3))
           \<and> roi_scale r = (ACTUAL_WIDTH / real w, ACTUAL_HEIGHT / real (h - h div 3))
           \<and> 0 < fst (roi_scale r) \<and> 0 < snd (roi_scale r)"
proof -
  have sh: "shape raw = (h, w)" by (rule shape_rect [OF assms(1-3)])
  have hpos: "0 < h - h div 3" using assms(3) by linarith
  have sl: "slice raw (h div 3, h) (0, w) = drop (h div 3) raw"
    by (rule slice_rect [OF assms(1,2)])
  show ?thesis
    using assms(4) hpos sl
    by (simp add: roi_of_def sh Let_def ACTUAL_WIDTH_def ACTUAL_HEIGHT_def)
qed

text \<open>The theorem on a frame of four rows and two columns.\<close>

theorem roi_crop_and_scale_witness:
  "roi_of [[(1, 2, 3), (4, 5, 6)], [(7, 8, 9), (10, 11, 12)], [(13, 14, 15), (16, 17, 18)],
           [(19, 20, 21), (22, 23, 24)]]
     = Inr \<lparr>roi_upper_left = (0, 1), roi_bottom_right = (2, 4), roi_horizontal = (0, 2),
            roi_vertical = (1, 4), roi_dimensions = (2, 3), roi_scale = (43 / 2, 20 / 3)\<rparr>
   \<and> slice [[(1, 2, 3), (4, 5, 6)], [(7, 8, 9), (10, 11, 12)], [(13, 14, 15), (16, 17, 18)],
           [(19, 20, 21), (22, 23, 24)]] (1, 4) (0, 2)
     = [[(7, 8, 9), (10, 11, 12)], [(13, 14, 15), (16, 17, 18)], [(19, 20, 21), (22, 23, 24)]]"
proof -
  let ?raw = "[[(1, 2, 3), (4, 5, 6)], [(7, 8, 9), (10, 11, 12)], [(13, 14, 15), (16, 17, 18)],
           [(19, 20, 21), (22, 23, 24)]] :: image"
  have "\<exists>r. roi_of ?raw = Inr r
           \<and> roi_upper_left r = (0, 4 div 3) \<and> roi_bottom_right r = (2, 4)
           \<and> roi_vertical r = (4 div 3, 4) \<and> roi_horizontal r = (0, 2)
           \<and> slice ?raw (roi_vertical r) (roi_horizontal r) = drop (4 div 3) ?raw
           \<and> roi_dimensions r = (real 2, real (4 - 4 div 3))
           \<and> roi_scale r = (ACTUAL_WIDTH / real 2, ACTUAL_HEIGHT / real (4 - 4 div 3))
           \<and> 0 < fst (roi_scale r) \<and> 0 < snd (roi_scale r)"
    by (rule roi_crop_and_scale) simp_all
  then obtain r where r: "roi_of ?raw = Inr r" "roi_upper_left r = (0, 1)"
      "roi_bottom_right r = (2, 4)" "roi_vertical r = (1, 4)" "roi_horizontal r = (0, 2)"
      "slice ?raw (roi_vertical r) (roi_horizontal r) = drop 1 ?raw"
      "roi_dimensions r = (2, 3)" "roi_scale r = (43 / 2, 20 / 3)"
    by (auto simp: ACTUAL_WIDTH_def ACTUAL_HEIGHT_def)
  have "r = \<lparr>roi_upper_left = (0, 1), roi_bottom_right = (2, 4), roi_horizontal = (0, 2),
            roi_vertical = (1, 4), roi_dimensions = (2, 3), roi_scale = (43 / 2, 20 / 3)\<rparr>"
    using r by (cases r) simp
  with r show ?thesis by simp
qed

subsection \<open>The stages of process_image\<close>

lemma detect_display_indep:
  "fst (detect cv img d s disp1) = fst (detect cv img d s disp2)"
  by (simp add: detect_eq detect_loop_display_indep [of cv _ d s "[]" disp1 disp2])

lemma threshold_Inr:
  assumes "threshold cv img hsv = Inr (res_r, res_b, res_g, res_y)"
  shows "masked cv img (red_mask hsv) = Inr res_r"
    and "masked cv img (inRange hsv LOWER_BLUE UPPER_BLUE) = Inr res_b"
    and "masked cv img (inRange hsv LOWER_GREEN UPPER_GREEN) = Inr res_g"
    and "masked cv img (inRange hsv LOWER_YELLOW UPPER_YELLOW) = Inr res_y"
  using assms by (auto simp: threshold_def split: sum.splits)

lemma detect_all_Inr:
  assumes "fst (detect_all cv res_g res_y res_r d s disp) = Inr arrangement"
  shows "\<exists>cubes cuboids long_cuboids. arrangement = [cubes, cuboids, long_cuboids]
           \<and> (\<forall>display. fst (detect cv res_g d s display) = Inr cubes)
           \<and> (\<forall>display. fst (detect cv res_y d s display) = Inr cuboids)
           \<and> (\<forall>display. fst (detect cv res_r d s display) = Inr long_cuboids)"
proof -
  obtain a1 d1 where 1: "detect cv res_g d s disp = (a1, d1)" by (cases "detect cv res_g d s disp")
  obtain a2 d2 where 2: "detect cv res_y d s d1 = (a2, d2)" by (cases "detect cv res_y d s d1")
  obtain a3 d3 where 3: "detect cv res_r d s d2 = (a3, d3)" by (cases "detect cv res_r d s d2")
  from assms 1 2 3 obtain cubes cuboids long_cuboids
    where r: "a1 = Inr cubes" "a2 = Inr cuboids" "a3 = Inr long_cuboids"
      "arrangement = [cubes, cuboids, long_cuboids]"
    by (auto simp: detect_all_def split: sum.splits)
  have "fst (detect cv res_g d s display) = Inr cubes" for display
    using detect_display_indep [of cv res_g d s display disp] 1 r by simp
  moreover have "fst (detect cv res_y d s display) = Inr cuboids" for display
    using detect_display_indep [of cv res_y d s display d1] 2 r by simp
  moreover have "fst (detect cv res_r d s display) = Inr long_cuboids" for display
    using detect_display_indep [of cv res_r d s display d2] 3 r by simp
  ultimately show ?thesis using r(4) by blast
qed

lemma process_image_unfold:
  assumes "roi_of raw = Inr r"
  shows "process_image cv raw =
     (case threshold cv (roi_img cv raw r) (cvtColor_BGR2HSV cv (roi_img cv raw r)) of
        Inl e \<Rightarrow> (Inl e, drawn cv raw r)
      | Inr (res_r, res_b, res_g, res_y) \<Rightarrow>
          (case detect_all cv res_g res_y res_r (roi_dimensions r) (roi_scale r)
                  (roi_view cv raw r) of
             (Inl e, display) \<Rightarrow>
               (Inl e, store_view (drawn cv raw r) (roi_vertical r) (roi_horizontal r) display)
           | (Inr arrangement, display) \<Rightarrow>
               (Inr (arrangement, np_add (np_add res_r res_b) res_y),
                store_view (drawn cv raw r) (roi_vertical r) (roi_horizontal r) display)))"
  using assms
  by (simp add: process_image_def Let_def drawn_def roi_view_def roi_img_def
        split: sum.splits prod.splits)

lemma process_image_no_roi:
  assumes "roi_of raw = Inl e"
  shows "process_image cv raw = (Inl e, raw)"
  using assms by (simp add: process_image_def)

subsection \<open>Two frames of three rows and two columns\<close>

text \<open>
  The model run on two small frames with the stand-in library: one whose pixels fall
  in the blue range only, one whose pixels fall in the green and the blue range. The
  stand-in reports one contour, a rectangle of 66 by 32 pixels, for every image that is
  not black.
\<close>

lemma sample_denoise: "denoise (sample_cv cs bx) img = img"
  by (simp add: denoise_def sample_cv_def eval_nat_numeral)

lemma roi_3x2:
  "roi_of [[p, p], [p, p], [p, p]]
     = Inr \<lparr>roi_upper_left = (0, 1), roi_bottom_right = (2, 3), roi_horizontal = (0, 2),
            roi_vertical = (1, 3), roi_dimensions = (2, 2), roi_scale = (43 / 2, 10)\<rparr>"
  by (simp add: roi_of_def shape_def Let_def ACTUAL_WIDTH_def ACTUAL_HEIGHT_def)

lemma pose_66_32_small:
  "estimate_pose ((0, 0), (66, 0), (66, 32), (0, 32)) (2, 2) (43 / 2, 10)
   = Inr ((- 688, 150, 13 / 2), (0, 0, Finite 0))"
  by (simp add: estimate_pose_def moments_66_32 angle_66_32 box_list_def py_round_def)

lemma threshold_blue:
  "threshold (sample_cv cs bx) [[(0, 0, 0), (140, 90, 100)], [(140, 90, 100), (140, 90, 100)]]
     [[(0, 0, 0), (140, 90, 100)], [(140, 90, 100), (140, 90, 100)]]
   = Inr ([[(0, 0, 0), (0, 0, 0)], [(0, 0, 0), (0, 0, 0)]],
          [[(0, 0, 0), (140, 90, 100)], [(140, 90, 100), (140, 90, 100)]],
          [[(0, 0, 0), (0, 0, 0)], [(0, 0, 0), (0, 0, 0)]],
          [[(0, 0, 0), (0, 0, 0)], [(0, 0, 0), (0, 0, 0)]])"
  by (simp add: threshold_def masked_def bitwise_and_mask_def red_mask_def inRange_def
        in_bounds_def bitwise_or_def sample_cv_def LOWER_RED_1_def UPPER_RED_1_def
        LOWER_RED_2_def UPPER_RED_2_def LOWER_BLUE_def UPPER_BLUE_def LOWER_GREEN_def
        UPPER_GREEN_def LOWER_YELLOW_def UPPER_YELLOW_def)

lemma detect_black:
  "detect (sample_cv cs bx) [[(0, 0, 0), (0, 0, 0)], [(0, 0, 0), (0, 0, 0)]] d s display
   = (Inr [], display)"
  by (simp add: detect_def sample_cv_def)

lemma detect_blue:
  "detect (sample_cv [[(0, 0), (66, 0), (66, 32), (0, 32)]] corner_box)
     [[(0, 0, 0), (140, 90, 100)], [(140, 90, 100), (140, 90, 100)]] (2, 2) (43 / 2, 10)
     [[(0, 0, 0), (140, 90, 100)], [(140, 90, 100), (140, 90, 100)]]
   = (Inr [((- 688, 150, 13 / 2), (0, 0, Finite 0))],
      [[(255, 255, 0), (140, 90, 100)], [(140, 90, 100), (140, 90, 100)]])"
  by (simp add: detect_def sample_cv_def contourArea_def corner_box_def intp_box_def intp_def
        pose_66_32_small paint_def)

lemma process_blue:
  "process_image (sample_cv [[(0, 0), (66, 0), (66, 32), (0, 32)]] corner_box)
     [[(140, 90, 100), (140, 90, 100)], [(140, 90, 100), (140, 90, 100)],
      [(140, 90, 100), (140, 90, 100)]]
   = (Inr ([[], [], []], [[(0, 0, 0), (140, 90, 100)], [(140, 90, 100), (140, 90, 100)]]),
      [[(140, 90, 100), (140, 90, 100)], [(0, 0, 0), (140, 90, 100)],
       [(140, 90, 100), (140, 90, 100)]])"
proof -
  let ?cv = "sample_cv [[(0, 0), (66, 0), (66, 32), (0, 32)]] corner_box"
  let ?raw = "[[(140, 90, 100), (140, 90, 100)], [(140, 90, 100), (140, 90, 100)],
      [(140, 90, 100), (140, 90, 100)]] :: image"
  let ?r = "\<lparr>roi_upper_left = (0, 1), roi_bottom_right = (2, 3), roi_horizontal = (0, 2),
            roi_vertical = (1, 3), roi_dimensions = (2, 2), roi_scale = (43 / 2, 10)\<rparr>"
  have d: "drawn ?cv ?raw ?r = [[(140, 90, 100), (140, 90, 100)], [(0, 0, 0), (140, 90, 100)],
       [(140, 90, 100), (140, 90, 100)]]"
    by (simp add: drawn_def sample_cv_def paint_def)
  have v: "roi_view ?cv ?raw ?r = [[(0, 0, 0), (140, 90, 100)], [(140, 90, 100), (140, 90, 100)]]"
    unfolding roi_view_def d by (simp add: slice_def)
  have i: "roi_img ?cv ?raw ?r = [[(0, 0, 0), (140, 90, 100)], [(140, 90, 100), (140, 90, 100)]]"
    unfolding roi_img_def v by (simp add: sample_denoise)
  have h: "cvtColor_BGR2HSV ?cv = (\<lambda>i. i)" by (simp add: sample_cv_def)
  have da: "detect_all ?cv [[(0, 0, 0), (0, 0, 0)], [(0, 0, 0), (0, 0, 0)]]
              [[(0, 0, 0), (0, 0, 0)], [(0, 0, 0), (0, 0, 0)]]
              [[(0, 0, 0), (0, 0, 0)], [(0, 0, 0), (0, 0, 0)]] (2, 2) (43 / 2, 10)
              [[(0, 0, 0), (140, 90, 100)], [(140, 90, 100), (140, 90, 100)]]
            = (Inr [[], [], []], [[(0, 0, 0), (140, 90, 100)], [(140, 90, 100), (140, 90, 100)]])"
    by (simp add: detect_all_def detect_black)
  show ?thesis
    unfolding process_image_unfold [OF roi_3x2] i h v d threshold_blue
    by (simp add: da np_add_def store_view_def)
qed

lemma threshold_green:
  "threshold (sample_cv cs bx) [[(0, 0, 0), (100, 150, 100)], [(100, 150, 100), (100, 150, 100)]]
     [[(0, 0, 0), (100, 150, 100)], [(100, 150, 100), (100, 150, 100)]]
   = Inr ([[(0, 0, 0), (0, 0, 0)], [(0, 0, 0), (0, 0, 0)]],
          [[(0, 0, 0), (100, 150, 100)], [(100, 150, 100), (100, 150, 100)]],
          [[(0, 0, 0), (100, 150, 100)], [(100, 150, 100), (100, 150, 100)]],
          [[(0, 0, 0), (0, 0, 0)], [(0, 0, 0), (0, 0, 0)]])"
  by (simp add: threshold_def masked_def bitwise_and_mask_def red_mask_def inRange_def
        in_bounds_def bitwise_or_def sample_cv_def LOWER_RED_1_def UPPER_RED_1_def
        LOWER_RED_2_def UPPER_RED_2_def LOWER_BLUE_def UPPER_BLUE_def LOWER_GREEN_def
        UPPER_GREEN_def LOWER_YELLOW_def UPPER_YELLOW_def)

lemma detect_green:
  "detect (sample_cv [[(0, 0), (66, 0), (66, 32), (0, 32)]] corner_box)
     [[(0, 0, 0), (100, 150, 100)], [(100, 150, 100), (100, 150, 100)]] (2, 2) (43 / 2, 10)
     [[(0, 0, 0), (100, 150, 100)], [(100, 150, 100), (100, 150, 100)]]
   = (Inr [((- 688, 150, 13 / 2), (0, 0, Finite 0))],
      [[(255, 255, 0), (100, 150, 100)], [(100, 150, 100), (100, 150, 100)]])"
  by (simp add: detect_def sample_cv_def contourArea_def corner_box_def intp_box_def intp_def
        pose_66_32_small paint_def)

lemma detect_all_green:
  "detect_all (sample_cv [[(0, 0), (66, 0), (66, 32), (0, 32)]] corner_box)
     [[(0, 0, 0), (100, 150, 100)], [(100, 150, 100), (100, 150, 100)]]
     [[(0, 0, 0), (0, 0, 0)], [(0, 0, 0), (0, 0, 0)]]
     [[(0, 0, 0), (0, 0, 0)], [(0, 0, 0), (0, 0, 0)]] (2, 2) (43 / 2, 10)
     [[(0, 0, 0), (100, 150, 100)], [(100, 150, 100), (100, 150, 100)]]
   = (Inr [[((- 688, 150, 13 / 2), (0, 0, Finite 0))], [], []],
      [[(255, 255, 0), (100, 150, 100)], [(100, 150, 100), (100, 150, 100)]])"
  unfolding detect_all_def detect_green by (simp add: detect_black)

lemma stages_green:
  "drawn (sample_cv [[(0, 0), (66, 0), (66, 32), (0, 32)]] corner_box)
     [[(100, 150, 100), (100, 150, 100)], [(100, 150, 100), (100, 150, 100)],
      [(100, 150, 100), (100, 150, 100)]]
     \<lparr>roi_upper_left = (0, 1), roi_bottom_right = (2, 3), roi_horizontal = (0, 2),
            roi_vertical = (1, 3), roi_dimensions = (2, 2), roi_scale = (43 / 2, 10)\<rparr>
   = [[(100, 150, 100), (100, 150, 100)], [(0, 0, 0), (100, 150, 100)],
      [(100, 150, 100), (100, 150, 100)]]"
  "roi_view (sample_cv [[(0, 0), (66, 0), (66, 32), (0, 32)]] corner_box)
     [[(100, 150, 100), (100, 150, 100)], [(100, 150, 100), (100, 150, 100)],
      [(100, 150, 100), (100, 150, 100)]]
     \<lparr>roi_upper_left = (0, 1), roi_bottom_right = (2, 3), roi_horizontal = (0, 2),
            roi_vertical = (1, 3), roi_dimensions = (2, 2), roi_scale = (43 / 2, 10)\<rparr>
   = [[(0, 0, 0), (100, 150, 100)], [(100, 150, 100), (100, 150, 100)]]"
  "roi_img (sample_cv [[(0, 0), (66, 0), (66, 32), (0, 32)]] corner_box)
     [[(100, 150, 100), (100, 150, 100)], [(100, 150, 100), (100, 150, 100)],
      [(100, 150, 100), (100, 150, 100)]]
     \<lparr>roi_upper_left = (0, 1), roi_bottom_right = (2, 3), roi_horizontal = (0, 2),
            roi_vertical = (1, 3), roi_dimensions = (2, 2), roi_scale = (43 / 2, 10)\<rparr>
   = [[(0, 0, 0), (100, 150, 100)], [(100, 150, 100), (100, 150, 100)]]"
proof -
  let ?cv = "sample_cv [[(0, 0), (66, 0), (66, 32), (0, 32)]] corner_box"
  let ?raw = "[[(100, 150, 100), (100, 150, 100)], [(100, 150, 100), (100, 150, 100)],
      [(100, 150, 100), (100, 150, 100)]] :: image"
  let ?r = "\<lparr>roi_upper_left = (0, 1), roi_bottom_right = (2, 3), roi_horizontal = (0, 2),
            roi_vertical = (1, 3), roi_dimensions = (2, 2), roi_scale = (43 / 2, 10)\<rparr>"
  show d: "drawn ?cv ?raw ?r = [[(100, 150, 100), (100, 150, 100)], [(0, 0, 0), (100, 150, 100)],
      [(100, 150, 100), (100, 150, 100)]]"
    by (simp add: drawn_def sample_cv_def paint_def)
  show v: "roi_view ?cv ?raw ?r = [[(0, 0, 0), (100, 150, 100)], [(100, 150, 100), (100, 150, 100)]]"
    unfolding roi_view_def d by (simp add: slice_def)
  show "roi_img ?cv ?raw ?r = [[(0, 0, 0), (100, 150, 100)], [(100, 150, 100), (100, 150, 100)]]"
    unfolding roi_img_def v by (simp add: sample_denoise)
qed

lemma sample_hsv: "cvtColor_BGR2HSV (sample_cv cs bx) = (\<lambda>i. i)"
  by (simp add: sample_cv_def)

lemma process_green:
  "process_image (sample_cv [[(0, 0), (66, 0), (66, 32), (0, 32)]] corner_box)
     [[(100, 150, 100), (100, 150, 100)], [(100, 150, 100), (100, 150, 100)],
      [(100, 150, 100), (100, 150, 100)]]
   = (Inr ([[((- 688, 150, 13 / 2), (0, 0, Finite 0))], [], []],
           [[(0, 0, 0), (100, 150, 100)], [(100, 150, 100), (100, 150, 100)]]),
      [[(100, 150, 100), (100, 150, 100)], [(255, 255, 0), (100, 150, 100)],
       [(100, 150, 100), (100, 150, 100)]])"
  unfolding process_image_unfold [OF roi_3x2] stages_green sample_hsv threshold_green
  by (simp add: detect_all_green np_add_def store_view_def)

subsection \<open>The classes that are detected\<close>

text \<open>
  C4 (as the code has it). Whenever \<open>process_image\<close> returns, the four masked images
  (red, blue, green, yellow) have been computed from the denoised region, and the
  arrangement is the list of exactly three sequences, in this order: what \<open>detect\<close>
  returns for the green masked image, for the yellow one and for the red one. No
  sequence is computed for the blue class: its masked image enters only the combined
  image \<open>res_r + res_b + res_y\<close>.
\<close>

theorem process_image_three_classes:
  assumes "fst (process_image cv raw) = Inr (arrangement, combined)"
  shows "\<exists>r res_r res_b res_g res_y cubes cuboids long_cuboids.
           roi_of raw = Inr r
           \<and> masked cv (roi_img cv raw r) (red_mask (cvtColor_BGR2HSV cv (roi_img cv raw r)))
               = Inr res_r
           \<and> masked cv (roi_img cv raw r)
                 (inRange (cvtColor_BGR2HSV cv (roi_img cv raw r)) LOWER_BLUE UPPER_BLUE)
               = Inr res_b
           \<and> masked cv (roi_img cv raw r)
                 (inRange (cvtColor_BGR2HSV cv (roi_img cv raw r)) LOWER_GREEN UPPER_GREEN)
               = Inr res_g
           \<and> masked cv (roi_img cv raw r)
                 (inRange (cvtColor_BGR2HSV cv (roi_img cv raw r)) LOWER_YELLOW UPPER_YELLOW)
               = Inr res_y
           \<and> arrangement = [cubes, cuboids, long_cuboids]
           \<and> (\<forall>display. fst (detect cv res_g (roi_dimensions r) (roi_scale r) display) = Inr cubes)
           \<and> (\<forall>display. fst (detect cv res_y (roi_dimensions r) (roi_scale r) display) = Inr cuboids)
           \<and> (\<forall>display. fst (detect cv res_r (roi_dimensions r) (roi_scale r) display)
                 = Inr long_cuboids)
           \<and> combined = np_add (np_add res_r res_b) res_y"
proof -
  obtain r where r: "roi_of raw = Inr r"
    using assms by (cases "roi_of raw") (simp_all add: process_image_no_roi)
  let ?img = "roi_img cv raw r"
  let ?hsv = "cvtColor_BGR2HSV cv ?img"
  from assms obtain res_r res_b res_g res_y
    where t: "threshold cv ?img ?hsv = Inr (res_r, res_b, res_g, res_y)"
    by (auto simp: process_image_unfold [OF r] split: sum.splits)
  from assms t have da: "fst (detect_all cv res_g res_y res_r (roi_dimensions r) (roi_scale r)
                  (roi_view cv raw r)) = Inr arrangement"
    and comb: "combined = np_add (np_add res_r res_b) res_y"
    by (auto simp: process_image_unfold [OF r] split: sum.splits prod.splits)
  from detect_all_Inr [OF da] threshold_Inr [OF t] r comb show ?thesis by blast
qed

text \<open>The theorem on the green frame: one object in the first sequence.\<close>

theorem process_image_three_classes_witness:
  "fst (process_image (sample_cv [[(0, 0), (66, 0), (66, 32), (0, 32)]] corner_box)
     [[(100, 150, 100), (100, 150, 100)], [(100, 150, 100), (100, 150, 100)],
      [(100, 150, 100), (100, 150, 100)]])
   = Inr ([[((- 688, 150, 13 / 2), (0, 0, Finite 0))], [], []],
           [[(0, 0, 0), (100, 150, 100)], [(100, 150, 100), (100, 150, 100)]])
   \<and> (\<exists>cubes cuboids long_cuboids :: detected list.
         [[((- 688, 150, 13 / 2), (0, 0, Finite 0))], [], []] = [cubes, cuboids, long_cuboids])"
proof -
  let ?cv = "sample_cv [[(0, 0), (66, 0), (66, 32), (0, 32)]] corner_box"
  let ?raw = "[[(100, 150, 100), (100, 150, 100)], [(100, 150, 100), (100, 150, 100)],
      [(100, 150, 100), (100, 150, 100)]] :: image"
  have p: "fst (process_image ?cv ?raw)
     = Inr ([[((- 688, 150, 13 / 2), (0, 0, Finite 0))], [], []],
           [[(0, 0, 0), (100, 150, 100)], [(100, 150, 100), (100, 150, 100)]])"
    by (simp add: process_green)
  from process_image_three_classes [OF p]
  have "\<exists>cubes cuboids long_cuboids :: detected list.
         [[((- 688, 150, 13 / 2), (0, 0, Finite 0))], [], []] = [cubes, cuboids, long_cuboids]"
    by blast
  with p show ?thesis by blast
qed

text \<open>
  C4 as stated fails for the blue class. On the blue frame the blue masked image is
  not black and \<open>detect\<close>, run on it, finds an object; the arrangement that
  \<open>process_image\<close> returns holds three empty sequences and no sequence for blue.
\<close>

theorem process_image_blue_counterexample:
  "fst (process_image (sample_cv [[(0, 0), (66, 0), (66, 32), (0, 32)]] corner_box)
     [[(140, 90, 100), (140, 90, 100)], [(140, 90, 100), (140, 90, 100)],
      [(140, 90, 100), (140, 90, 100)]])
   = Inr ([[], [], []], [[(0, 0, 0), (140, 90, 100)], [(140, 90, 100), (140, 90, 100)]])
   \<and> masked (sample_cv [[(0, 0), (66, 0), (66, 32), (0, 32)]] corner_box)
       [[(0, 0, 0), (140, 90, 100)], [(140, 90, 100), (140, 90, 100)]]
       (inRange [[(0, 0, 0), (140, 90, 100)], [(140, 90, 100), (140, 90, 100)]]
          LOWER_BLUE UPPER_BLUE)
     = Inr [[(0, 0, 0), (140, 90, 100)], [(140, 90, 100), (140, 90, 100)]]
   \<and> fst (detect (sample_cv [[(0, 0), (66, 0), (66, 32), (0, 32)]] corner_box)
       [[(0, 0, 0), (140, 90, 100)], [(140, 90, 100), (140, 90, 100)]] (2, 2) (43 / 2, 10)
       [[(0, 0, 0), (140, 90, 100)], [(140, 90, 100), (140, 90, 100)]])
     = Inr [((- 688, 150, 13 / 2), (0, 0, Finite 0))]"
  using threshold_Inr(2) [OF threshold_blue]
  by (simp add: process_blue detect_blue)

subsection \<open>The caller's frame\<close>

text \<open>
  C5 (as the code has it). No copy of the frame is made. \<open>cv2.rectangle\<close> draws the
  boundary of the region on the caller's buffer itself, and the overlays are drawn on
  the cropped view of that same buffer: when the call ends (the region and the masked
  images having been computed), the caller's buffer holds the frame with the boundary
  drawn on it and, in the rows and columns of the region, what the three calls of
  \<open>detect\<close> have drawn.
\<close>

theorem process_image_draws_on_frame:
  assumes "roi_of raw = Inr r"
    and "threshold cv (roi_img cv raw r) (cvtColor_BGR2HSV cv (roi_img cv raw r))
           = Inr (res_r, res_b, res_g, res_y)"
  shows "drawn cv raw r = rectangle cv raw (0, int (length raw div 3))
                            (int (snd (shape raw)), int (length raw))
         \<and> roi_view cv raw r = slice (drawn cv raw r) (roi_vertical r) (roi_horizontal r)
         \<and> snd (process_image cv raw)
             = store_view (drawn cv raw r) (roi_vertical r) (roi_horizontal r)
                 (snd (detect_all cv res_g res_y res_r (roi_dimensions r) (roi_scale r)
                         (roi_view cv raw r)))"
proof -
  have 1: "drawn cv raw r = rectangle cv raw (0, int (length raw div 3))
                            (int (snd (shape raw)), int (length raw))"
    using assms(1)
    by (auto simp: roi_of_def drawn_def Let_def shape_def split: if_splits prod.splits)
  have 2: "snd (process_image cv raw)
             = store_view (drawn cv raw r) (roi_vertical r) (roi_horizontal r)
                 (snd (detect_all cv res_g res_y res_r (roi_dimensions r) (roi_scale r)
                         (roi_view cv raw r)))"
    by (simp add: process_image_unfold [OF assms(1)] assms(2) split: sum.splits prod.splits)
  from 1 2 show ?thesis by (simp add: roi_view_def)
qed

text \<open>The theorem on the green frame.\<close>

theorem process_image_draws_on_frame_witness:
  "snd (process_image (sample_cv [[(0, 0), (66, 0), (66, 32), (0, 32)]] corner_box)
     [[(100, 150, 100), (100, 150, 100)], [(100, 150, 100), (100, 150, 100)],
      [(100, 150, 100), (100, 150, 100)]])
   = store_view [[(100, 150, 100), (100, 150, 100)], [(0, 0, 0), (100, 150, 100)],
                 [(100, 150, 100), (100, 150, 100)]] (1, 3) (0, 2)
       [[(255, 255, 0), (100, 150, 100)], [(100, 150, 100), (100, 150, 100)]]"
  using process_image_draws_on_frame [OF roi_3x2, of
      "sample_cv [[(0, 0), (66, 0), (66, 32), (0, 32)]] corner_box" "(100, 150, 100)"]
  unfolding stages_green sample_hsv
  using threshold_green [of "[[(0, 0), (66, 0), (66, 32), (0, 32)]]" corner_box]
  by (simp add: detect_all_green)

text \<open>
  C5 as stated fails: after the call on the blue frame the caller's buffer has the
  pixel of the boundary that the stand-in colours, and after the call on the green
  frame it has the pixel of the overlay; neither buffer is what the caller passed in.
\<close>

theorem process_image_frame_counterexample:
  "snd (process_image (sample_cv [[(0, 0), (66, 0), (66, 32), (0, 32)]] corner_box)
     [[(140, 90, 100), (140, 90, 100)], [(140, 90, 100), (140, 90, 100)],
      [(140, 90, 100), (140, 90, 100)]])
   = [[(140, 90, 100), (140, 90, 100)], [(0, 0, 0), (140, 90, 100)],
      [(140, 90, 100), (140, 90, 100)]]
   \<and> snd (process_image (sample_cv [[(0, 0), (66, 0), (66, 32), (0, 32)]] corner_box)
     [[(100, 150, 100), (100, 150, 100)], [(100, 150, 100), (100, 150, 100)],
      [(100, 150, 100), (100, 150, 100)]])
   = [[(100, 150, 100), (100, 150, 100)], [(255, 255, 0), (100, 150, 100)],
      [(100, 150, 100), (100, 150, 100)]]
   \<and> snd (process_image (sample_cv [[(0, 0), (66, 0), (66, 32), (0, 32)]] corner_box)
     [[(140, 90, 100), (140, 90, 100)], [(140, 90, 100), (140, 90, 100)],
      [(140, 90, 100), (140, 90, 100)]])
   \<noteq> [[(140, 90, 100), (140, 90, 100)], [(140, 90, 100), (140, 90, 100)],
      [(140, 90, 100), (140, 90, 100)]]"
  by (simp add: process_blue process_green)

subsection \<open>Repeated runs\<close>



end
